theory Spec2Isabelle
  imports Complex_Main
begin

section \<open>The amplifier base class of libmushu\<close>

text \<open>
  The module \<^verbatim>\<open>libmushu/amplifier.py\<close> holds one class, \<^verbatim>\<open>Amplifier\<close>, the base class of
  the amplifier drivers. It has no \<^verbatim>\<open>__init__\<close> and no class attribute; its eight methods
  have one of two bodies, \<^verbatim>\<open>pass\<close> or \<^verbatim>\<open>raise NotImplementedError\<close>.
\<close>

subsection \<open>Values, exceptions, instances\<close>

text \<open>
  The Python values the methods take and return. \<open>PyArray\<close> is a two-dimensional numpy
  array, a list of rows (time) of samples (channels), which the docstring of
  \<^verbatim>\<open>get_data\<close> names as the first component of its result.
\<close>

datatype pyval =
    PyNone
  | PyBool bool
  | PyInt int
  | PyFloat real
  | PyStr string
  | PyList "pyval list"
  | PyTuple "pyval list"
  | PyArray "real list list"

text \<open>
  The exceptions a call can end with. The source raises \<open>NotImplementedError\<close> only; the
  other constructors are the error kinds the driver contract names, which the claims need
  to say what a call did not raise.
\<close>

datatype py_exception =
    NotImplementedError
  | ConfigurationError
  | InvalidStateError
  | NotConfiguredError
  | HardwareUnavailableError
  | HardwareError
  | DataOverflowError
  | NotSupportedError

text \<open>A call either raises (\<open>Inl\<close>) or returns a value (\<open>Inr\<close>).\<close>

type_synonym 'a result = "py_exception + 'a"

text \<open>
  An instance is its attribute dictionary (\<^verbatim>\<open>__dict__\<close>, in insertion order). The class
  defines no attribute, so \<^verbatim>\<open>Amplifier()\<close> has none.
\<close>

record Amplifier =
  attrs :: "(string \<times> pyval) list"

definition Amplifier_new :: Amplifier where
  "Amplifier_new = \<lparr>attrs = []\<rparr>"

subsection \<open>The methods\<close>

text \<open>
  Each method takes the instance and returns the outcome of the call together with the
  instance after it. A body that is \<^verbatim>\<open>pass\<close> falls off its end, which in Python returns
  \<^verbatim>\<open>None\<close>.
\<close>

definition configure :: "Amplifier \<Rightarrow> pyval \<Rightarrow> pyval result \<times> Amplifier" where
  "configure self config = (Inr PyNone, self)"

definition configure_with_gui :: "Amplifier \<Rightarrow> pyval result \<times> Amplifier" where
  "configure_with_gui self = (Inr PyNone, self)"

definition start :: "Amplifier \<Rightarrow> pyval result \<times> Amplifier" where
  "start self = (Inr PyNone, self)"

definition stop :: "Amplifier \<Rightarrow> pyval result \<times> Amplifier" where
  "stop self = (Inr PyNone, self)"

definition get_data :: "Amplifier \<Rightarrow> pyval result \<times> Amplifier" where
  "get_data self = (Inr PyNone, self)"

definition get_channels :: "Amplifier \<Rightarrow> pyval result \<times> Amplifier" where
  "get_channels self = (Inl NotImplementedError, self)"

definition get_sampling_frequency :: "Amplifier \<Rightarrow> pyval result \<times> Amplifier" where
  "get_sampling_frequency self = (Inl NotImplementedError, self)"

text \<open>
  \<^verbatim>\<open>is_available\<close> is a static method: it receives no instance. Its argument here is the
  state of the whole process, of any type, whatever instances exist in it or none.
\<close>

definition is_available :: "'w \<Rightarrow> pyval result \<times> 'w" where
  "is_available w = (Inl NotImplementedError, w)"

subsection \<open>Sequences of calls\<close>

text \<open>
  A caller drives one instance through a sequence of method calls. \<open>invoke\<close> is the
  method lookup; \<open>run\<close> makes the calls in order, each on the instance the previous one
  left, and records every call with its outcome (the caller catches what a call raises and
  goes on).
\<close>

datatype call =
    Configure pyval
  | ConfigureWithGui
  | Start
  | Stop
  | GetData
  | GetChannels
  | GetSamplingFrequency

fun invoke :: "call \<Rightarrow> Amplifier \<Rightarrow> pyval result \<times> Amplifier" where
  "invoke (Configure config) self = configure self config"
| "invoke ConfigureWithGui self = configure_with_gui self"
| "invoke Start self = start self"
| "invoke Stop self = stop self"
| "invoke GetData self = get_data self"
| "invoke GetChannels self = get_channels self"
| "invoke GetSamplingFrequency self = get_sampling_frequency self"

type_synonym trace = "(call \<times> pyval result) list"

fun run :: "call list \<Rightarrow> Amplifier \<Rightarrow> trace \<times> Amplifier" where
  "run [] self = ([], self)"
| "run (c # cs) self =
     (case invoke c self of (r, self') \<Rightarrow>
        (case run cs self' of (tr, self'') \<Rightarrow> ((c, r) # tr, self'')))"

text \<open>The four lifecycle methods whose body is \<^verbatim>\<open>pass\<close>.\<close>

fun lifecycle_call :: "call \<Rightarrow> bool" where
  "lifecycle_call (Configure config) = True"
| "lifecycle_call ConfigureWithGui = True"
| "lifecycle_call Start = True"
| "lifecycle_call Stop = True"
| "lifecycle_call c = False"

subsection \<open>The lifecycle of the driver contract\<close>

text \<open>
  The class keeps no lifecycle field. The contract's three states are read off the
  history of an instance, as the contract words its transitions: a configure that
  returns makes an idle or configured driver configured, a start that returns makes a
  configured driver streaming, a stop that returns makes a streaming driver idle; a call
  that raises and every other call leave the state where it was. These definitions follow
  the contract, to compare the class against it.
\<close>

datatype lifecycle = Idle | Configured | Streaming

fun contract_step :: "lifecycle \<Rightarrow> call \<times> pyval result \<Rightarrow> lifecycle" where
  "contract_step st (c, Inl e) = st"
| "contract_step Idle (Configure config, Inr v) = Configured"
| "contract_step Configured (Configure config, Inr v) = Configured"
| "contract_step Configured (Start, Inr v) = Streaming"
| "contract_step Streaming (Stop, Inr v) = Idle"
| "contract_step st (c, Inr v) = st"

definition contract_state :: "trace \<Rightarrow> lifecycle" where
  "contract_state tr = foldl contract_step Idle tr"

text \<open>Whether some configure call of the history returned.\<close>

fun configure_returned :: "call \<times> pyval result \<Rightarrow> bool" where
  "configure_returned (Configure config, Inr v) = True"
| "configure_returned (c, r) = False"

definition configured_before :: "trace \<Rightarrow> bool" where
  "configured_before tr = list_ex configure_returned tr"

text \<open>
  The result the docstring of \<^verbatim>\<open>get_data\<close> announces: a numpy array and a list of
  markers.
\<close>

fun data_and_markers :: "pyval \<Rightarrow> bool" where
  "data_and_markers (PyTuple [PyArray rows, PyList markers]) = True"
| "data_and_markers v = False"

section \<open>What the calls do\<close>

lemma invoke_self: "snd (invoke c self) = self"
  by (cases c) (simp_all add: configure_def configure_with_gui_def start_def stop_def
      get_data_def get_channels_def get_sampling_frequency_def)

lemma invoke_pair: "invoke c self = (fst (invoke c self), self)"
  using invoke_self [of c self] by (simp add: prod_eq_iff)

lemma run_Cons:
  "run (c # cs) self = ((c, fst (invoke c self)) # fst (run cs self), snd (run cs self))"
proof -
  obtain tr self'' where r: "run cs self = (tr, self'')"
    by (cases "run cs self")
  have "run (c # cs) self =
      (case (fst (invoke c self), self) of (r, self') \<Rightarrow>
        (case run cs self' of (tr, self'') \<Rightarrow> ((c, r) # tr, self'')))"
    using invoke_pair [of c self] by simp
  with r show ?thesis by simp
qed

lemma run_self: "snd (run cs self) = self"
proof (induction cs)
  case Nil
  show ?case by simp
next
  case (Cons c cs)
  then show ?case by (simp only: run_Cons snd_conv)
qed

lemma run_snoc: "fst (run (cs @ [c]) self) = fst (run cs self) @ [(c, fst (invoke c self))]"
proof (induction cs)
  case Nil
  show ?case by (simp only: run_Cons append_Nil fst_conv) simp
next
  case (Cons d ds)
  then show ?case by (simp only: run_Cons append_Cons fst_conv)
qed

lemma lifecycle_call_returns: "lifecycle_call c \<Longrightarrow> invoke c self = (Inr PyNone, self)"
  by (cases c) (simp_all add: configure_def configure_with_gui_def start_def stop_def)

lemma contract_state_snoc:
  "contract_state (fst (run (cs @ [c]) self))
     = contract_step (contract_state (fst (run cs self))) (c, fst (invoke c self))"
  by (simp add: run_snoc contract_state_def)

text \<open>
  C10. In the base class, configure, configure_with_gui, start and stop are silent no-ops:
  each returns None, raises nothing and leaves the instance as it was, for every argument
  and every instance; and so does every sequence of them, in any order.
\<close>

theorem lifecycle_methods_are_noops:
  assumes "list_all lifecycle_call cs"
  shows "configure self config = (Inr PyNone, self)
       \<and> configure_with_gui self = (Inr PyNone, self)
       \<and> start self = (Inr PyNone, self)
       \<and> stop self = (Inr PyNone, self)
       \<and> run cs self = (map (\<lambda>c. (c, Inr PyNone)) cs, self)"
proof -
  from assms have "run cs self = (map (\<lambda>c. (c, Inr PyNone)) cs, self)"
  proof (induction cs)
    case Nil
    show ?case by simp
  next
    case (Cons c cs)
    then have "invoke c self = (Inr PyNone, self)"
      by (simp add: lifecycle_call_returns)
    with Cons show ?case by simp
  qed
  then show ?thesis
    by (simp add: configure_def configure_with_gui_def start_def stop_def)
qed

theorem lifecycle_methods_are_noops_witness:
  "list_all lifecycle_call [Stop, Start, Configure (PyStr ''data''), ConfigureWithGui, Start]
   \<and> run [Stop, Start, Configure (PyStr ''data''), ConfigureWithGui, Start]
         \<lparr>attrs = [(''port'', PyInt 3)]\<rparr>
     = ([(Stop, Inr PyNone), (Start, Inr PyNone), (Configure (PyStr ''data''), Inr PyNone),
         (ConfigureWithGui, Inr PyNone), (Start, Inr PyNone)],
        \<lparr>attrs = [(''port'', PyInt 3)]\<rparr>)"
  using lifecycle_methods_are_noops
    [of "[Stop, Start, Configure (PyStr ''data''), ConfigureWithGui, Start]"
        "\<lparr>attrs = [(''port'', PyInt 3)]\<rparr>" PyNone]
  by (simp add: configure_def configure_with_gui_def start_def stop_def)

text \<open>
  C2 (as stated, refuted). On an instance just constructed, with no call made before,
  start() does not fail: it returns None.
\<close>

theorem start_unconfigured_counterexample:
  "\<not> configured_before (fst (run [] Amplifier_new))
   \<and> fst (start (snd (run [] Amplifier_new))) = Inr PyNone
   \<and> fst (start (snd (run [] Amplifier_new))) \<noteq> Inl InvalidStateError
   \<and> fst (start (snd (run [] Amplifier_new))) \<noteq> Inl NotConfiguredError"
  by (simp add: configured_before_def start_def)

text \<open>
  C2 (amended). On the base class, start() called on an instance whose history holds no
  configure() that returned does not fail: it returns None and leaves the instance as it
  was.
\<close>

theorem start_unconfigured_returns_None:
  assumes "\<not> configured_before (fst (run cs Amplifier_new))"
  shows "start (snd (run cs Amplifier_new)) = (Inr PyNone, snd (run cs Amplifier_new))
       \<and> snd (run cs Amplifier_new) = Amplifier_new"
  by (simp add: start_def run_self)

theorem start_unconfigured_returns_None_witness:
  "\<not> configured_before (fst (run [Stop, GetChannels] Amplifier_new))
   \<and> start (snd (run [Stop, GetChannels] Amplifier_new)) = (Inr PyNone, Amplifier_new)"
proof -
  have h: "\<not> configured_before (fst (run [Stop, GetChannels] Amplifier_new))"
    by (simp add: configured_before_def stop_def get_channels_def)
  from start_unconfigured_returns_None [OF h] h show ?thesis
    by (simp add: stop_def get_channels_def)
qed

text \<open>
  C3 (as stated, refuted). After configure(256) and start() have both returned, the driver
  is streaming by the contract; configure(512) then returns None and raises nothing.
\<close>

theorem configure_streaming_counterexample:
  "contract_state (fst (run [Configure (PyInt 256), Start] Amplifier_new)) = Streaming
   \<and> fst (configure (snd (run [Configure (PyInt 256), Start] Amplifier_new)) (PyInt 512))
       = Inr PyNone
   \<and> fst (configure (snd (run [Configure (PyInt 256), Start] Amplifier_new)) (PyInt 512))
       \<noteq> Inl InvalidStateError"
  by (simp add: contract_state_def configure_def start_def)

text \<open>
  C3 (amended). On the base class, every call configure(cfg) made while the driver is
  streaming returns None and leaves the instance as it was, for every configuration cfg.
\<close>

theorem configure_streaming_returns_None:
  assumes "contract_state (fst (run cs Amplifier_new)) = Streaming"
  shows "configure (snd (run cs Amplifier_new)) cfg = (Inr PyNone, snd (run cs Amplifier_new))
       \<and> contract_state (fst (run (cs @ [Configure cfg]) Amplifier_new)) = Streaming"
proof -
  have "fst (invoke (Configure cfg) Amplifier_new) = Inr PyNone"
    by (simp add: configure_def)
  then have "contract_state (fst (run (cs @ [Configure cfg]) Amplifier_new))
      = contract_step (contract_state (fst (run cs Amplifier_new))) (Configure cfg, Inr PyNone)"
    by (simp add: run_snoc contract_state_def)
  with assms show ?thesis
    by (simp add: configure_def)
qed

theorem configure_streaming_returns_None_witness:
  "contract_state (fst (run [Configure (PyInt 256), Start, GetData] Amplifier_new)) = Streaming
   \<and> configure (snd (run [Configure (PyInt 256), Start, GetData] Amplifier_new)) (PyStr ''impedance'')
       = (Inr PyNone, Amplifier_new)"
proof -
  have h: "contract_state (fst (run [Configure (PyInt 256), Start, GetData] Amplifier_new))
      = Streaming"
    by (simp add: contract_state_def configure_def start_def get_data_def)
  from configure_streaming_returns_None [OF h, of "PyStr ''impedance''"] h
  show ?thesis by (simp add: configure_def start_def get_data_def)
qed

text \<open>
  C4 (as stated, refuted). On an instance just constructed, get_channels() and
  get_sampling_frequency() fail with NotImplementedError, not with NotConfiguredError.
\<close>

theorem queries_unconfigured_counterexample:
  "\<not> configured_before (fst (run [] Amplifier_new))
   \<and> fst (get_channels (snd (run [] Amplifier_new))) = Inl NotImplementedError
   \<and> fst (get_channels (snd (run [] Amplifier_new))) \<noteq> Inl NotConfiguredError
   \<and> fst (get_sampling_frequency (snd (run [] Amplifier_new))) = Inl NotImplementedError
   \<and> fst (get_sampling_frequency (snd (run [] Amplifier_new))) \<noteq> Inl NotConfiguredError"
  by (simp add: configured_before_def get_channels_def get_sampling_frequency_def)

text \<open>
  C4 (amended). On the base class, get_channels() and get_sampling_frequency() fail with
  NotImplementedError after every history of calls, before any configure() as well as once
  configured or later, and in every case they leave the driver's state unchanged: the
  instance and the contract's lifecycle state are what they were before the call.
\<close>

theorem queries_raise_NotImplementedError:
  "get_channels (snd (run cs Amplifier_new))
     = (Inl NotImplementedError, snd (run cs Amplifier_new))
   \<and> get_sampling_frequency (snd (run cs Amplifier_new))
     = (Inl NotImplementedError, snd (run cs Amplifier_new))
   \<and> contract_state (fst (run (cs @ [GetChannels]) Amplifier_new))
     = contract_state (fst (run cs Amplifier_new))
   \<and> contract_state (fst (run (cs @ [GetSamplingFrequency]) Amplifier_new))
     = contract_state (fst (run cs Amplifier_new))"
  by (simp add: contract_state_snoc get_channels_def get_sampling_frequency_def)

text \<open>
  C7. Every call to get_data() is to return a pair of a sample chunk and a marker
  sequence, as the method's docstring says (a numpy array and a list of markers). The
  code does not: in a streaming session, after configure(256) and start() have returned,
  get_data() returns None, which is no such pair. Its body is a bare \<^verbatim>\<open>pass\<close>, where
  the other value-returning methods of the class raise NotImplementedError.
\<close>

theorem get_data_in_session_returns_None:
  "contract_state (fst (run [Configure (PyInt 256), Start] Amplifier_new)) = Streaming
   \<and> fst (get_data (snd (run [Configure (PyInt 256), Start] Amplifier_new))) = Inr PyNone
   \<and> \<not> data_and_markers PyNone
   \<and> fst (get_channels (snd (run [Configure (PyInt 256), Start] Amplifier_new)))
       = Inl NotImplementedError"
  by (simp add: contract_state_def configure_def start_def get_data_def get_channels_def)




text \<open>
  C9. is_available() is state-independent and free of side effects: its outcome is the
  same in every state of the process, also one in which no instance exists (on the base
  class the outcome is NotImplementedError), it returns the process state it was given,
  and a configure and any calls after it on an instance give the same outcomes and the
  same instance whether or not is_available() was called first.
\<close>

theorem is_available_frame:
  "fst (is_available w) = fst (is_available w')
   \<and> fst (is_available ([] :: Amplifier list)) = fst (is_available [self])
   \<and> snd (is_available w) = w
   \<and> configure (snd (is_available self)) cfg = configure self cfg
   \<and> run (Configure cfg # cs) (snd (is_available self)) = run (Configure cfg # cs) self"
  by (simp add: is_available_def)

end
